theory Spec2Isabelle
  imports Main
begin

section \<open>Consultation server: rate limiting\<close>

text \<open>
  The server of \<^verbatim>\<open>src/server/index.js\<close> keeps its whole state in process-wide
  tables that the handlers of a single-threaded event loop read and write. Each handler is
  embedded as a function from the state before to the state after, together with the
  events it emits. Calls to collaborators outside the source (the language model, the text
  extraction, the clock, the random generator) appear as extra arguments that carry what
  the collaborator returned.
\<close>

subsection \<open>\<^verbatim>\<open>checkSocketRateLimit\<close>\<close>

text \<open>
  \<^verbatim>\<open>socketRateLimits\<close> is a \<^verbatim>\<open>Map\<close> from a source address to
  \<^verbatim>\<open>{ count, resetTime }\<close>. \<^verbatim>\<open>Date.now()\<close> is an argument, in milliseconds.
  The two configuration constants are read from the environment
  (\<^verbatim>\<open>parseInt(process.env.RATE_LIMIT_MAX) || 10\<close>), so they are parameters here.
\<close>

type_synonym ip = string

record limit =
  count :: int
  resetTime :: int

type_synonym rate_limits = "ip \<rightharpoonup> limit"

definition checkSocketRateLimit ::
  "int \<Rightarrow> int \<Rightarrow> rate_limits \<Rightarrow> ip \<Rightarrow> int \<Rightarrow> rate_limits \<times> bool" where
  "checkSocketRateLimit RATE_LIMIT_MAX RATE_LIMIT_WINDOW_MS lims src now =
     (case lims src of
        None \<Rightarrow>
          (lims(src \<mapsto> \<lparr>count = 1, resetTime = now + RATE_LIMIT_WINDOW_MS\<rparr>), True)
      | Some l \<Rightarrow>
          if now > resetTime l then
            (lims(src \<mapsto> \<lparr>count = 1, resetTime = now + RATE_LIMIT_WINDOW_MS\<rparr>), True)
          else if count l \<ge> RATE_LIMIT_MAX then (lims, False)
          else (lims(src \<mapsto> l\<lparr>count := count l + 1\<rparr>), True))"

text \<open>
  A run of checks, each with the address it comes from and the clock reading at the call.
  The answers are returned in the order of the calls.
\<close>

fun run_checks ::
  "int \<Rightarrow> int \<Rightarrow> rate_limits \<Rightarrow> (ip \<times> int) list \<Rightarrow> rate_limits \<times> bool list" where
  "run_checks M W lims [] = (lims, [])"
| "run_checks M W lims ((src, now) # rest) =
     (case checkSocketRateLimit M W lims src now of
        (lims', ok) \<Rightarrow>
          (case run_checks M W lims' rest of (lims'', oks) \<Rightarrow> (lims'', ok # oks)))"

text \<open>The answers given to one source, picked out of a run over many sources.\<close>

fun answers_for :: "ip \<Rightarrow> (ip \<times> int) list \<Rightarrow> bool list \<Rightarrow> bool list" where
  "answers_for src ((s, t) # evs) (b # bs) =
     (if s = src then b # answers_for src evs bs else answers_for src evs bs)"
| "answers_for src _ _ = []"

text \<open>A source has no open window at time \<open>t\<close>: no entry, or an entry whose reset time has passed.\<close>

definition window_closed :: "rate_limits \<Rightarrow> ip \<Rightarrow> int \<Rightarrow> bool" where
  "window_closed lims src t = (case lims src of None \<Rightarrow> True | Some l \<Rightarrow> resetTime l < t)"

text \<open>The clock readings of one source's checks in a run.\<close>

definition times_of :: "ip \<Rightarrow> (ip \<times> int) list \<Rightarrow> int list" where
  "times_of src evs = map snd (filter (\<lambda>e. fst e = src) evs)"

subsection \<open>\<^verbatim>\<open>apiLimiter\<close>\<close>

text \<open>
  Modelled from the spec: the limiter in front of \<^verbatim>\<open>/api\<close> and \<^verbatim>\<open>/upload\<close> is
  \<^verbatim>\<open>rateLimit({ windowMs, max, skip })\<close> of the package \<^verbatim>\<open>express-rate-limit\<close>;
  lines 102 to 122 of the source configure it, and its code is not in the source. The
  spec describes it as bounding ``inbound HTTP volume per source IP using a fixed window
  counter reset after a configurable window'', which ``allows exactly
  \<^verbatim>\<open>RATE_LIMIT_MAX\<close> requests from one source within the window, then rejects the next
  with a rate-limit error, and resets after the window elapses''. The configuration of
  the source skips requests whose path is \<^verbatim>\<open>/health\<close>. \<open>True\<close> lets the request
  through; \<open>False\<close> is the rate-limit error.
\<close>

definition apiLimiter ::
  "int \<Rightarrow> int \<Rightarrow> rate_limits \<Rightarrow> string \<Rightarrow> ip \<Rightarrow> int \<Rightarrow> rate_limits \<times> bool" where
  "apiLimiter maxHits windowMs hits path src now =
     (if path = ''/health'' then (hits, True)
      else
        (case hits src of
           None \<Rightarrow> (hits(src \<mapsto> \<lparr>count = 1, resetTime = now + windowMs\<rparr>), True)
         | Some w \<Rightarrow>
             if resetTime w < now
             then (hits(src \<mapsto> \<lparr>count = 1, resetTime = now + windowMs\<rparr>), True)
             else if count w < maxHits then (hits(src \<mapsto> w\<lparr>count := count w + 1\<rparr>), True)
             else (hits, False)))"

text \<open>A run of requests to one path, each with its source and the clock reading.\<close>

fun run_requests ::
  "int \<Rightarrow> int \<Rightarrow> rate_limits \<Rightarrow> string \<Rightarrow> (ip \<times> int) list \<Rightarrow> rate_limits \<times> bool list" where
  "run_requests M W hits path [] = (hits, [])"
| "run_requests M W hits path ((src, now) # rest) =
     (case apiLimiter M W hits path src now of
        (hits', ok) \<Rightarrow>
          (case run_requests M W hits' path rest of (hits'', oks) \<Rightarrow> (hits'', ok # oks)))"

section \<open>JavaScript values\<close>

text \<open>
  A string is the list of the bytes of its well-formed UTF-8 encoding; \<open>js_length\<close> below
  gives the length JavaScript reports for it, in UTF-16 code units. A value that may be
  \<^verbatim>\<open>undefined\<close> or \<^verbatim>\<open>null\<close> is an option, \<open>None\<close> standing for both. Parsed
  JSON is a datatype; numbers are integers, which is enough for the truthiness tests the
  source makes on them. \<open>JArrWith\<close> is an array that has been given named properties,
  which JavaScript allows and \<^verbatim>\<open>extractHealthMetrics\<close> does to a reply that parses to
  an array.
\<close>

datatype json =
    JNull
  | JBool bool
  | JNum int
  | JStr string
  | JArr "json list"
  | JObj "(string \<times> json) list"
  | JArrWith "json list" "(string \<times> json) list"

text \<open>The outcome of a call that may throw (a model call followed by \<^verbatim>\<open>JSON.parse\<close>).\<close>

datatype 'a attempt = Threw | Returned 'a

fun truthy :: "json \<Rightarrow> bool" where
  "truthy JNull = False"
| "truthy (JBool b) = b"
| "truthy (JNum n) = (n \<noteq> 0)"
| "truthy (JStr s) = (s \<noteq> [])"
| "truthy (JArr _) = True"
| "truthy (JObj _) = True"
| "truthy (JArrWith _ _) = True"

text \<open>Reading a property: \<open>None\<close> is \<^verbatim>\<open>undefined\<close>.\<close>

fun property :: "json \<Rightarrow> string \<Rightarrow> json option" where
  "property (JObj kvs) k = map_of kvs k"
| "property (JArrWith xs kvs) k = map_of kvs k"
| "property _ k = None"

definition truthy_opt :: "json option \<Rightarrow> bool" where
  "truthy_opt v = (case v of None \<Rightarrow> False | Some j \<Rightarrow> truthy j)"

text \<open>\<^verbatim>\<open>!s\<close> for a string that may be undefined.\<close>

definition falsy_str :: "string option \<Rightarrow> bool" where
  "falsy_str v = (v = None \<or> v = Some [])"

text \<open>\<^verbatim>\<open>a || "default"\<close> and \<^verbatim>\<open>a || b\<close>.\<close>

definition or_str :: "string option \<Rightarrow> string \<Rightarrow> string" where
  "or_str v d = (case v of None \<Rightarrow> d | Some s \<Rightarrow> if s = [] then d else s)"

definition or_opt :: "string option \<Rightarrow> string option \<Rightarrow> string option" where
  "or_opt a b = (if falsy_str a then b else a)"

text \<open>\<^verbatim>\<open>obj[k] = v\<close> and \<^verbatim>\<open>delete obj[k]\<close> on an object whose key order matters.\<close>

fun assign :: "'k \<Rightarrow> 'v \<Rightarrow> ('k \<times> 'v) list \<Rightarrow> ('k \<times> 'v) list" where
  "assign k v [] = [(k, v)]"
| "assign k v ((k', v') # kvs) =
     (if k' = k then (k, v) # kvs else (k', v') # assign k v kvs)"

definition delete_key :: "'k \<Rightarrow> ('k \<times> 'v) list \<Rightarrow> ('k \<times> 'v) list" where
  "delete_key k kvs = filter (\<lambda>p. fst p \<noteq> k) kvs"

text \<open>
  \<^verbatim>\<open>toLowerCase\<close>. The ASCII capitals are lowered. Two characters outside ASCII have a
  lower case that contains an ASCII letter and are lowered as JavaScript does: U+0130
  (bytes C4 B0) becomes \<open>i\<close> followed by U+0307 (bytes CC 87), and U+212A, the Kelvin
  sign (bytes E2 84 AA), becomes \<open>k\<close>. Every other character outside ASCII is left as it
  is; JavaScript maps it to a character outside ASCII again, so a test for an ASCII
  substring of the result, which is what the handlers make, has the same answer.
\<close>

definition lower_char :: "char \<Rightarrow> char" where
  "lower_char c =
     (let n = (of_char c :: nat) in if 65 \<le> n \<and> n \<le> 90 then char_of (n + 32) else c)"

fun toLowerCase :: "string \<Rightarrow> string" where
  "toLowerCase [] = []"
| "toLowerCase (c # cs) =
     (if c = CHR 0xC4 \<and> take 1 cs = [CHR 0xB0]
      then CHR ''i'' # CHR 0xCC # CHR 0x87 # toLowerCase (drop 1 cs)
      else if c = CHR 0xE2 \<and> take 2 cs = [CHR 0x84, CHR 0xAA]
      then CHR ''k'' # toLowerCase (drop 2 cs)
      else lower_char c # toLowerCase cs)"

text \<open>
  \<^verbatim>\<open>s.length\<close>: one unit for every character, two for a character encoded in four
  bytes. Bytes 80 to BF continue a character; bytes from F0 on start one of four bytes.
\<close>

definition js_length :: "string \<Rightarrow> nat" where
  "js_length s =
     length (filter (\<lambda>c. \<not> (128 \<le> (of_char c :: nat) \<and> (of_char c :: nat) < 192)) s) +
     length (filter (\<lambda>c. 240 \<le> (of_char c :: nat)) s)"

text \<open>
  The first \<open>n\<close> code units of a string. A four-byte character that the limit would cut
  in half (JavaScript keeps half of it, which is not text) ends the result.
\<close>

fun js_take :: "nat \<Rightarrow> string \<Rightarrow> string" where
  "js_take n [] = []"
| "js_take n (c # cs) =
     (let k = (of_char c :: nat) in
      if n = 0 then []
      else if k < 192 then c # js_take (n - 1) cs
      else if k < 224 then c # take 1 cs @ js_take (n - 1) (drop 1 cs)
      else if k < 240 then c # take 2 cs @ js_take (n - 1) (drop 2 cs)
      else if n = 1 then []
      else c # take 3 cs @ js_take (n - 2) (drop 3 cs))"

fun str_includes :: "string \<Rightarrow> string \<Rightarrow> bool" where
  "str_includes [] t = (t = [])"
| "str_includes (c # cs) t = (take (length t) (c # cs) = t \<or> str_includes cs t)"

definition substring0 :: "string \<Rightarrow> nat \<Rightarrow> string" where
  "substring0 s n = js_take n s"

section \<open>Data model\<close>

text \<open>
  Field names are those of the source with a short prefix per record, since several
  objects of the source share names (\<^verbatim>\<open>role\<close>, \<^verbatim>\<open>nickname\<close>, \<^verbatim>\<open>content\<close>).
\<close>

record fileData =
  fd_name :: string
  fd_url :: string
  fd_type :: string
  fd_analysis :: string

record message =
  m_role :: string
  m_nickname :: "string option"
  m_content :: string
  m_timestamp :: string
  m_avatarUrl :: "string option"
  m_fileData :: "fileData option"
  m_isFile :: bool
  m_forRole :: "string option"
  m_isPrivate :: bool

text \<open>
  \<^verbatim>\<open>keyMetrics.criticalFindings\<close> of the document summary is a list of rendered
  strings used only in prompts; it is left out, but the exception its construction can
  raise is kept (\<open>criticalFindings_throws\<close> below).
\<close>

record documentSummary =
  ds_fileName :: string
  ds_timestamp :: string
  ds_briefSummary :: string
  ds_diagnosis :: json
  ds_riskLevel :: json
  ds_fullAnalysis :: string
  ds_rawContent :: string

record fileInfo =
  f_name :: string
  f_path :: string
  f_url :: string
  f_type :: string
  f_content :: string
  f_analysis :: string
  f_documentSummary :: "documentSummary option"
  f_uploadedAt :: string
  f_uploadedBy :: string

record room =
  messages :: "message list"
  files :: "fileInfo list"
  patient :: "string option"
  doctor :: "string option"
  patientAvatar :: "string option"
  doctorAvatar :: "string option"
  healthMetrics :: "json option"
  allowedPatientEmail :: "string option"
  doctorEmail :: "string option"
  videoCallActive :: bool
  videoParticipants :: "string list"

record invitation =
  inv_roomId :: string
  inv_patientEmail :: string
  inv_doctorEmail :: string
  inv_createdAt :: string
  inv_videoEnabled :: bool

record user =
  u_roomId :: string
  u_nickname :: "string option"
  u_role :: "string option"
  u_avatarUrl :: "string option"
  u_email :: "string option"

type_synonym sid = string

text \<open>
  \<open>users\<close> keeps the insertion order of its keys, which \<^verbatim>\<open>Object.keys(users).find\<close>
  follows. \<open>joined\<close> is the socket library's membership, \<^verbatim>\<open>socket.rooms\<close>: the room
  named by the connection's own id, which the library enters on connection, and the rooms
  entered with \<^verbatim>\<open>socket.join\<close>; a disconnected connection is in no room.

  \<open>rooms\<close> and \<open>roomInvitations\<close> hold the own properties of the two plain objects of
  the source. A lookup \<^verbatim>\<open>rooms[key]\<close> also finds what every plain object inherits;
  \<open>inherited\<close> lists those names. No handler ever stores a room or an invitation under
  such a name.
\<close>

definition inherited :: "string \<Rightarrow> bool" where
  "inherited key =
     (key \<in> set [''constructor'', ''__proto__'', ''toString'', ''toLocaleString'',
                  ''valueOf'', ''hasOwnProperty'', ''isPrototypeOf'',
                  ''propertyIsEnumerable'', ''__defineGetter__'', ''__defineSetter__'',
                  ''__lookupGetter__'', ''__lookupSetter__''])"

record state =
  rooms :: "string \<rightharpoonup> room"
  users :: "(sid \<times> user) list"
  roomInvitations :: "string \<rightharpoonup> invitation"
  joined :: "sid \<Rightarrow> string set"

definition init :: state where
  "init = \<lparr>rooms = Map.empty, users = [], roomInvitations = Map.empty, joined = (\<lambda>_. {})\<rparr>"

subsection \<open>Emitted events\<close>

datatype payload =
    RoomHistory "message list" "fileInfo list"
  | HealthMetricsUpdated json
  | VideoCallActive
  | UserJoined "string option" "string option" "string option" "string option"
      "string option" "string option"
  | UserLeft "string option" "string option" "string option" "string option"
  | ChatMessage message
  | AiMessage string "string option" bool
  | FilesUpdated "fileInfo list"
  | VideoError string
  | VideoCallStarted "string option" string
  | VideoCallEnded "string option"
  | UserJoinedVideo string "string option" "string option"
  | ExistingVideoParticipants "string list"
  | UserLeftVideo string "string option"
  | RoomDeleted string

text \<open>
  \<^verbatim>\<open>io.to(name).emit\<close>, \<^verbatim>\<open>socket.emit\<close> and \<^verbatim>\<open>socket.to(roomId).emit\<close>.
  \<^verbatim>\<open>io.to(socket.id)\<close> is \<open>ToRoom\<close> of the connection's id: room names and connection
  ids are one name space, and a client may enter a room of any name with \<^verbatim>\<open>join-room\<close>.
  Only \<^verbatim>\<open>socket.emit\<close> reaches one connection whatever the membership.
\<close>

datatype target = ToRoom string | ToSocket sid | ToRoomExcept string sid

type_synonym emit = "target \<times> payload"

definition receives :: "state \<Rightarrow> sid \<Rightarrow> target \<Rightarrow> bool" where
  "receives st c tg =
     (case tg of
        ToRoom r \<Rightarrow> r \<in> joined st c
      | ToSocket s \<Rightarrow> c = s
      | ToRoomExcept r s \<Rightarrow> r \<in> joined st c \<and> c \<noteq> s)"

text \<open>An exception that no handler of the source catches.\<close>

datatype error = TypeError

definition role_of :: "state \<Rightarrow> sid \<Rightarrow> string option" where
  "role_of st c = (case map_of (users st) c of None \<Rightarrow> None | Some u \<Rightarrow> u_role u)"

section \<open>Presence: \<^verbatim>\<open>join-room\<close> and \<^verbatim>\<open>disconnect\<close>\<close>

definition emptyRoom :: room where
  "emptyRoom =
     \<lparr>messages = [], files = [], patient = None, doctor = None, patientAvatar = None,
      doctorAvatar = None, healthMetrics = None, allowedPatientEmail = None,
      doctorEmail = None, videoCallActive = False, videoParticipants = []\<rparr>"

text \<open>The history filter of the join handler.\<close>

definition filteredMessages :: "room \<Rightarrow> string option \<Rightarrow> message list" where
  "filteredMessages rm role =
     filter (\<lambda>m. if m_role m \<noteq> ''AI Assistant'' then True
                 else falsy_str (m_forRole m) \<or> m_forRole m = role)
       (messages rm)"

text \<open>
  The handler as written. When \<^verbatim>\<open>rooms[roomId]\<close> finds an inherited property, no room
  is created, the slot is written onto the inherited value (which is not part of the
  state), and \<^verbatim>\<open>rooms[roomId].messages.filter\<close> throws; nothing catches the exception.
  The error carries the state at the throw: the connection has entered the room and is
  bound. A connection that runs a handler is connected, so the room of its own id is among
  its rooms.
\<close>

definition join_room_handler ::
  "state \<Rightarrow> sid \<Rightarrow> string \<Rightarrow> string option \<Rightarrow> string option \<Rightarrow> string option \<Rightarrow>
     string option \<Rightarrow> (error \<times> state) + (state \<times> emit list)" where
  "join_room_handler st sock roomId nickname role avatarUrl email =
     (let st0 = st\<lparr>users := assign sock
                      \<lparr>u_roomId = roomId, u_nickname = nickname, u_role = role,
                       u_avatarUrl = avatarUrl, u_email = email\<rparr> (users st),
                   joined := (joined st)
                      (sock := insert roomId (insert sock (joined st sock)))\<rparr>
      in if rooms st roomId = None \<and> inherited roomId then Inl (TypeError, st0)
         else
           let rm0 = (case rooms st roomId of None \<Rightarrow> emptyRoom | Some r \<Rightarrow> r);
               rm = (if role = Some ''patient''
                     then rm0\<lparr>patient := nickname, patientAvatar := avatarUrl\<rparr>
                     else rm0\<lparr>doctor := nickname, doctorAvatar := avatarUrl\<rparr>)
           in Inr (st0\<lparr>rooms := (rooms st)(roomId \<mapsto> rm)\<rparr>,
                   [(ToSocket sock, RoomHistory (filteredMessages rm role) (files rm))] @
                   (case healthMetrics rm of
                      None \<Rightarrow> []
                    | Some hm \<Rightarrow>
                        if truthy hm then [(ToSocket sock, HealthMetricsUpdated hm)] else []) @
                   (if videoCallActive rm then [(ToSocket sock, VideoCallActive)] else []) @
                   [(ToRoom roomId,
                     UserJoined nickname role (patient rm) (doctor rm) (patientAvatar rm)
                       (doctorAvatar rm))]))"

text \<open>The state the handler leaves and the events it has emitted, thrown or not.\<close>

definition join_room ::
  "state \<Rightarrow> sid \<Rightarrow> string \<Rightarrow> string option \<Rightarrow> string option \<Rightarrow> string option \<Rightarrow>
     string option \<Rightarrow> state \<times> emit list" where
  "join_room st sock roomId nickname role avatarUrl email =
     (case join_room_handler st sock roomId nickname role avatarUrl email of
        Inl (e, st') \<Rightarrow> (st', [])
      | Inr r \<Rightarrow> r)"

text \<open>
  The library has removed the connection from every room it had joined by the time the
  \<^verbatim>\<open>disconnect\<close> handler runs.
\<close>

definition disconnect :: "state \<Rightarrow> sid \<Rightarrow> state \<times> emit list" where
  "disconnect st sock =
     (let st0 = st\<lparr>joined := (joined st)(sock := {})\<rparr> in
      case map_of (users st) sock of
        None \<Rightarrow> (st0, [])
      | Some u \<Rightarrow>
          (case rooms st (u_roomId u) of
             None \<Rightarrow> (st0\<lparr>users := delete_key sock (users st)\<rparr>, [])
           | Some rm \<Rightarrow>
               let rm' = (if u_role u = Some ''patient''
                          then rm\<lparr>patient := None, patientAvatar := None\<rparr>
                          else rm\<lparr>doctor := None, doctorAvatar := None\<rparr>)
               in (st0\<lparr>rooms := (rooms st)(u_roomId u \<mapsto> rm'),
                       users := delete_key sock (users st)\<rparr>,
                   [(ToRoom (u_roomId u),
                     UserLeft (u_nickname u) (u_role u) (patient rm') (doctor rm'))])))"

section \<open>Video call signalling\<close>

definition start_video_call :: "state \<Rightarrow> sid \<Rightarrow> string \<Rightarrow> state \<times> emit list" where
  "start_video_call st sock roomId =
     (case map_of (users st) sock of
        None \<Rightarrow> (st, [(ToSocket sock, VideoError ''Only doctors can start video calls'')])
      | Some u \<Rightarrow>
          if u_role u \<noteq> Some ''doctor''
          then (st, [(ToSocket sock, VideoError ''Only doctors can start video calls'')])
          else (case rooms st roomId of
                  None \<Rightarrow> (st, [])
                | Some rm \<Rightarrow>
                    (st\<lparr>rooms := (rooms st)
                          (roomId \<mapsto> rm\<lparr>videoCallActive := True, videoParticipants := []\<rparr>)\<rparr>,
                     [(ToRoom roomId, VideoCallStarted (u_nickname u) roomId)])))"

definition end_video_call :: "state \<Rightarrow> sid \<Rightarrow> string \<Rightarrow> state \<times> emit list" where
  "end_video_call st sock roomId =
     (case map_of (users st) sock of
        None \<Rightarrow> (st, [])
      | Some u \<Rightarrow>
          if u_role u \<noteq> Some ''doctor'' then (st, [])
          else (case rooms st roomId of
                  None \<Rightarrow> (st, [])
                | Some rm \<Rightarrow>
                    (st\<lparr>rooms := (rooms st)
                          (roomId \<mapsto> rm\<lparr>videoCallActive := False, videoParticipants := []\<rparr>)\<rparr>,
                     [(ToRoom roomId, VideoCallEnded (u_nickname u))])))"

definition join_video_call :: "state \<Rightarrow> sid \<Rightarrow> string \<Rightarrow> string \<Rightarrow> state \<times> emit list" where
  "join_video_call st sock roomId peerId =
     (case map_of (users st) sock of
        None \<Rightarrow> (st, [])
      | Some u \<Rightarrow>
          (case rooms st roomId of
             None \<Rightarrow> (st, [])
           | Some rm \<Rightarrow>
               let ps = (if peerId \<in> set (videoParticipants rm) then videoParticipants rm
                         else videoParticipants rm @ [peerId])
               in (st\<lparr>rooms := (rooms st)(roomId \<mapsto> rm\<lparr>videoParticipants := ps\<rparr>)\<rparr>,
                   [(ToRoomExcept roomId sock, UserJoinedVideo peerId (u_nickname u) (u_role u)),
                    (ToSocket sock,
                     ExistingVideoParticipants (filter (\<lambda>i. i \<noteq> peerId) ps))])))"

definition leave_video_call :: "state \<Rightarrow> sid \<Rightarrow> string \<Rightarrow> string \<Rightarrow> state \<times> emit list" where
  "leave_video_call st sock roomId peerId =
     (case map_of (users st) sock of
        None \<Rightarrow> (st, [])
      | Some u \<Rightarrow>
          (case rooms st roomId of
             None \<Rightarrow> (st, [])
           | Some rm \<Rightarrow>
               (st\<lparr>rooms := (rooms st)
                     (roomId \<mapsto> rm\<lparr>videoParticipants :=
                                     filter (\<lambda>i. i \<noteq> peerId) (videoParticipants rm)\<rparr>)\<rparr>,
                [(ToRoomExcept roomId sock, UserLeftVideo peerId (u_nickname u))])))"

section \<open>Chat messages and the private assistant reply\<close>

text \<open>
  \<^verbatim>\<open>getAIResponse\<close> builds a prompt and calls the model once; the prompt leaves the
  server and is not part of the state. \<open>reply\<close> is what the call returned.
\<close>

definition getAIResponse :: "state \<Rightarrow> string \<Rightarrow> string attempt \<Rightarrow> string" where
  "getAIResponse st roomId reply =
     (case rooms st roomId of
        None \<Rightarrow> ''Room not found''
      | Some rm \<Rightarrow>
          (case reply of
             Returned text \<Rightarrow> text
           | Threw \<Rightarrow> ''I'' @ [CHR 0x27] @ ''m having trouble responding. Please try again.''))"

definition isAiCall :: "string \<Rightarrow> bool" where
  "isAiCall message = str_includes (toLowerCase message) ''@ai''"

definition chatMessage_of :: "user \<Rightarrow> string \<Rightarrow> string option \<Rightarrow> string \<Rightarrow> message" where
  "chatMessage_of u message avatarUrl now =
     \<lparr>m_role = (if u_role u = Some ''doctor'' then ''Doctor'' else ''Patient''),
      m_nickname = u_nickname u, m_content = message, m_timestamp = now,
      m_avatarUrl = or_opt avatarUrl (u_avatarUrl u), m_fileData = None, m_isFile = False,
      m_forRole = None, m_isPrivate = False\<rparr>"

definition aiMessage_of :: "string \<Rightarrow> string option \<Rightarrow> string \<Rightarrow> message" where
  "aiMessage_of text forRole now =
     \<lparr>m_role = ''AI Assistant'', m_nickname = None, m_content = text, m_timestamp = now,
      m_avatarUrl = None, m_fileData = None, m_isFile = False, m_forRole = forRole,
      m_isPrivate = True\<rparr>"

text \<open>
  The handler up to \<^verbatim>\<open>await getAIResponse\<close>. \<^verbatim>\<open>rooms[roomId].messages.push\<close> on a
  room that does not exist throws. The third component is the binding the handler holds
  while it waits, when the message calls the assistant.
\<close>

definition chat_message_sync ::
  "state \<Rightarrow> sid \<Rightarrow> string \<Rightarrow> string \<Rightarrow> string option \<Rightarrow> string \<Rightarrow>
     error + (state \<times> emit list \<times> user option)" where
  "chat_message_sync st sock roomId message avatarUrl now =
     (case map_of (users st) sock of
        None \<Rightarrow> Inr (st, [], None)
      | Some u \<Rightarrow>
          let chatMessage = chatMessage_of u message avatarUrl now in
          (case rooms st roomId of
             None \<Rightarrow> Inl TypeError
           | Some rm \<Rightarrow>
               let st1 = st\<lparr>rooms := (rooms st)
                            (roomId \<mapsto> rm\<lparr>messages := messages rm @ [chatMessage]\<rparr>)\<rparr>
               in if \<not> isAiCall message
                  then Inr (st1, [(ToRoom roomId, ChatMessage chatMessage)], None)
                  else Inr (st1, [(ToRoom sock, ChatMessage chatMessage)], Some u)))"

text \<open>
  The handler after the wait, in the state of that moment: other handlers may have run,
  and the room may be gone, in which case the \<^verbatim>\<open>push\<close> throws.
\<close>

definition chat_ai_reply ::
  "state \<Rightarrow> sid \<Rightarrow> string \<Rightarrow> user \<Rightarrow> string \<Rightarrow> string \<Rightarrow> error + (state \<times> emit list)" where
  "chat_ai_reply st sock roomId u aiResponse now =
     (case rooms st roomId of
        None \<Rightarrow> Inl TypeError
      | Some rm \<Rightarrow>
          Inr (st\<lparr>rooms := (rooms st)
                   (roomId \<mapsto> rm\<lparr>messages := messages rm @
                                 [aiMessage_of aiResponse (u_role u) now]\<rparr>)\<rparr>,
               [(ToRoom sock, AiMessage aiResponse (u_role u) True)]))"

text \<open>The run of the handler in which nothing else happens during the wait.\<close>

definition chat_message ::
  "state \<Rightarrow> sid \<Rightarrow> string \<Rightarrow> string \<Rightarrow> string option \<Rightarrow> string \<Rightarrow> string attempt \<Rightarrow>
     error + (state \<times> emit list)" where
  "chat_message st sock roomId message avatarUrl now reply =
     (case chat_message_sync st sock roomId message avatarUrl now of
        Inl e \<Rightarrow> Inl e
      | Inr (st1, out, None) \<Rightarrow> Inr (st1, out)
      | Inr (st1, out, Some u) \<Rightarrow>
          (case chat_ai_reply st1 sock roomId u (getAIResponse st1 roomId reply) now of
             Inl e \<Rightarrow> Inl e
           | Inr (st2, out2) \<Rightarrow> Inr (st2, out @ out2)))"

section \<open>Emergency detection\<close>

definition EMERGENCY_KEYWORDS :: "string list" where
  "EMERGENCY_KEYWORDS =
     [''chest pain'', ''heart attack'', ''can'' @ [CHR 0x27] @ ''t breathe'', ''breathless'',
      ''severe bleeding'', ''unconscious'', ''stroke'', ''paralysis'', ''severe headache'',
      ''suicide'', ''overdose'', ''seizure'', ''choking'', ''anaphylaxis'', ''severe pain'']"

definition hasEmergencyKeyword :: "string \<Rightarrow> bool" where
  "hasEmergencyKeyword message =
     list_ex (\<lambda>keyword. str_includes (toLowerCase message) keyword) EMERGENCY_KEYWORDS"

record emergency =
  isEmergency :: bool
  level :: "json option"
  reasoning :: "json option"
  urgentAdvice :: "json option"

text \<open>
  \<open>classified\<close> is the outcome of the classifier call and of parsing its reply as an
  object. The second component counts the model calls made. The \<^verbatim>\<open>userRole\<close>
  parameter of the source is never read and is dropped.
\<close>

definition detectEmergency ::
  "string \<Rightarrow> (string \<times> json) list attempt \<Rightarrow> emergency \<times> nat" where
  "detectEmergency message classified =
     (if \<not> hasEmergencyKeyword message
      then (\<lparr>isEmergency = False, level = None, reasoning = None, urgentAdvice = None\<rparr>, 0)
      else
        (case classified of
           Returned result \<Rightarrow>
             (\<lparr>isEmergency = (map_of result ''level'' = Some (JStr ''CRITICAL'')
                                \<or> map_of result ''level'' = Some (JStr ''HIGH'')),
               level = map_of result ''level'',
               reasoning = map_of result ''reasoning'',
               urgentAdvice = map_of result ''urgentAdvice''\<rparr>, 1)
         | Threw \<Rightarrow>
             (\<lparr>isEmergency = hasEmergencyKeyword message, level = Some (JStr ''HIGH''),
               reasoning = Some (JStr ''Keyword detected''), urgentAdvice = None\<rparr>, 1)))"

section \<open>Document analysis pipeline\<close>

subsection \<open>\<^verbatim>\<open>extractHealthMetrics\<close>\<close>

text \<open>
  \<open>parsed\<close> is the outcome of the model call followed by \<^verbatim>\<open>JSON.parse\<close>: the parsed
  value, or \<open>Threw\<close> for a failed call or a reply that does not parse. Reading a property
  of \<^verbatim>\<open>null\<close> throws inside the \<^verbatim>\<open>try\<close> block as well. The file is not in strict
  mode, so assigning a property to a number, a string or a boolean does nothing, and the
  value is returned as it is.
\<close>

definition fallbackMetrics :: json where
  "fallbackMetrics =
     JObj [(''vitals'', JObj []),
           (''diagnosis'',
            JObj [(''primary'', JStr ''Analysis Error''), (''confidence'', JNum 0),
                  (''riskLevel'', JStr ''low''),
                  (''summary'', JStr ''Unable to extract metrics from document'')]),
           (''keyFindings'', JArr []),
           (''recommendations'',
            JArr [JStr ''Please re-upload the document or check file format''])]"

definition defaultDiagnosis :: json where
  "defaultDiagnosis =
     JObj [(''primary'', JStr ''Monitoring''), (''confidence'', JNum 0),
           (''riskLevel'', JStr ''low''),
           (''summary'', JStr ''No specific diagnosis identified'')]"

text \<open>\<^verbatim>\<open>if (!metrics.k) metrics.k = d\<close>.\<close>

definition set_default :: "string \<Rightarrow> json \<Rightarrow> (string \<times> json) list \<Rightarrow> (string \<times> json) list" where
  "set_default k d kvs = (if truthy_opt (map_of kvs k) then kvs else assign k d kvs)"

definition set_defaults :: "(string \<times> json) list \<Rightarrow> (string \<times> json) list" where
  "set_defaults metrics =
     set_default ''recommendations'' (JArr [])
       (set_default ''keyFindings'' (JArr [])
         (set_default ''diagnosis'' defaultDiagnosis
           (set_default ''vitals'' (JObj []) metrics)))"

definition extractHealthMetrics :: "json attempt \<Rightarrow> json" where
  "extractHealthMetrics parsed =
     (case parsed of
        Threw \<Rightarrow> fallbackMetrics
      | Returned JNull \<Rightarrow> fallbackMetrics
      | Returned (JObj metrics) \<Rightarrow> JObj (set_defaults metrics)
      | Returned (JArr xs) \<Rightarrow> JArrWith xs (set_defaults [])
      | Returned (JArrWith xs metrics) \<Rightarrow> JArrWith xs (set_defaults metrics)
      | Returned v \<Rightarrow> v)"

subsection \<open>\<^verbatim>\<open>generateDocumentSummary\<close>\<close>

text \<open>
  \<^verbatim>\<open>metrics?.keyFindings?.slice(0, 3).map(f => ...)\<close> raises when the value is
  neither absent nor an array, or when one of the first three entries is \<^verbatim>\<open>null\<close>.
\<close>

definition criticalFindings_throws :: "json \<Rightarrow> bool" where
  "criticalFindings_throws metrics =
     (case property metrics ''keyFindings'' of
        None \<Rightarrow> False
      | Some JNull \<Rightarrow> False
      | Some (JArr xs) \<Rightarrow> JNull \<in> set (take 3 xs)
      | Some _ \<Rightarrow> True)"

text \<open>\<^verbatim>\<open>metrics?.diagnosis?.k || d\<close>.\<close>

definition diagnosis_field :: "json \<Rightarrow> string \<Rightarrow> json \<Rightarrow> json" where
  "diagnosis_field metrics k d =
     (case property metrics ''diagnosis'' of
        None \<Rightarrow> d
      | Some dg \<Rightarrow>
          (case property dg k of None \<Rightarrow> d | Some v \<Rightarrow> if truthy v then v else d))"

definition generateDocumentSummary ::
  "string \<Rightarrow> string \<Rightarrow> string \<Rightarrow> json \<Rightarrow> string \<Rightarrow> error + documentSummary" where
  "generateDocumentSummary content fileName analysis metrics now =
     (if criticalFindings_throws metrics then Inl TypeError
      else Inr
        \<lparr>ds_fileName = fileName, ds_timestamp = now,
         ds_briefSummary =
           (if analysis \<noteq> [] then substring0 analysis 500 else ''No analysis available''),
         ds_diagnosis = diagnosis_field metrics ''primary'' (JStr ''Unknown''),
         ds_riskLevel = diagnosis_field metrics ''riskLevel'' (JStr ''low''),
         ds_fullAnalysis = analysis,
         ds_rawContent = substring0 content 1000\<rparr>)"

subsection \<open>\<^verbatim>\<open>POST /upload\<close>\<close>

record upfile =
  originalname :: string
  path :: string
  filename :: string
  mimetype :: string

text \<open>A callback handed to \<^verbatim>\<open>setTimeout\<close>, with the values its closure holds.\<close>

datatype timer =
    DoctorAnalysis string string
  | PatientNotice string "string option" string

datatype http = Status nat | Success | SuccessFile fileInfo

definition PAPERCLIP :: string where
  "PAPERCLIP = [CHR 0xF0, CHR 0x9F, CHR 0x93, CHR 0x8E]"

definition MICROSCOPE :: string where
  "MICROSCOPE = [CHR 0xF0, CHR 0x9F, CHR 0x94, CHR 0xAC]"

definition CHECKMARK :: string where
  "CHECKMARK = [CHR 0xE2, CHR 0x9C, CHR 0x85]"

definition analyzable :: "string \<Rightarrow> bool" where
  "analyzable content =
     (content \<noteq> [] \<and> js_length content > 20
        \<and> \<not> str_includes content ''no text detected'')"

definition fileInfo_of ::
  "upfile \<Rightarrow> string option \<Rightarrow> string \<Rightarrow> string \<Rightarrow> documentSummary option \<Rightarrow> string \<Rightarrow>
     fileInfo" where
  "fileInfo_of file uploadedBy content analysis summary now =
     \<lparr>f_name = originalname file, f_path = path file,
      f_url = ''/uploads/'' @ filename file, f_type = mimetype file,
      f_content = substring0 content 5000, f_analysis = analysis,
      f_documentSummary = summary, f_uploadedAt = now,
      f_uploadedBy = or_str uploadedBy ''Unknown''\<rparr>"

definition fileMessage_of :: "upfile \<Rightarrow> string option \<Rightarrow> string \<Rightarrow> string \<Rightarrow> message" where
  "fileMessage_of file uploadedBy analysis now =
     \<lparr>m_role = or_str uploadedBy ''User'', m_nickname = uploadedBy,
      m_content = PAPERCLIP @ '' Uploaded: '' @ originalname file, m_timestamp = now,
      m_avatarUrl = None,
      m_fileData = Some \<lparr>fd_name = originalname file,
                          fd_url = ''/uploads/'' @ filename file,
                          fd_type = mimetype file, fd_analysis = analysis\<rparr>,
      m_isFile = True, m_forRole = None, m_isPrivate = False\<rparr>"

text \<open>
  The end of the handler: from \<^verbatim>\<open>const fileInfo\<close> to the reply. When
  \<^verbatim>\<open>rooms[roomId]\<close> is an inherited property, \<^verbatim>\<open>rooms[roomId].files.push\<close> throws
  and the handler's \<^verbatim>\<open>catch\<close> answers 500.
\<close>

definition upload_record ::
  "state \<Rightarrow> string \<Rightarrow> upfile \<Rightarrow> string option \<Rightarrow> string option \<Rightarrow> string \<Rightarrow> string \<Rightarrow>
     documentSummary option \<Rightarrow> string \<Rightarrow> state \<times> emit list \<times> (nat \<times> timer) list \<times> http" where
  "upload_record st roomId file uploadedBy uploaderRole content analysis summary now =
     (let fileInfo = fileInfo_of file uploadedBy content analysis summary now in
      case rooms st roomId of
        None \<Rightarrow>
          if inherited roomId then (st, [], [], Status 500)
          else (st, [], [], SuccessFile fileInfo)
      | Some rm \<Rightarrow>
          let fileMessage = fileMessage_of file uploadedBy analysis now;
              rm' = rm\<lparr>files := files rm @ [fileInfo],
                       messages := messages rm @ [fileMessage]\<rparr>
          in (st\<lparr>rooms := (rooms st)(roomId \<mapsto> rm')\<rparr>,
              [(ToRoom roomId, ChatMessage fileMessage),
               (ToRoom roomId, FilesUpdated (files rm'))],
              (if content \<noteq> [] \<and> js_length content > 20
               then [(1000, DoctorAnalysis roomId analysis)] else []) @
              (if uploaderRole = Some ''patient''
               then [(500, PatientNotice roomId uploadedBy (originalname file))] else []),
              SuccessFile fileInfo))"

text \<open>
  The handler waits for its collaborators four times, and other handlers run meanwhile.
  It is therefore given in parts, each run in the state of its moment.

  The first part is the request check and, once the text is extracted, the two tests of
  line 810 and line 813.
\<close>

datatype upload_branch =
    Reject
  | NotAnalysed upfile string
  | WithRoom upfile string
  | WithoutRoom upfile string

definition upload_test ::
  "state \<Rightarrow> upfile option \<Rightarrow> string option \<Rightarrow> string \<Rightarrow> upload_branch" where
  "upload_test st file roomId content =
     (case file of
        None \<Rightarrow> Reject
      | Some fl \<Rightarrow>
          (case roomId of
             None \<Rightarrow> Reject
           | Some rid \<Rightarrow>
               if rid = [] then Reject
               else if analyzable content then
                 (if rooms st rid \<noteq> None \<or> inherited rid then WithRoom fl rid
                  else WithoutRoom fl rid)
               else NotAnalysed fl rid))"

text \<open>
  Line 817, after the analysis has answered: \<^verbatim>\<open>rooms[roomId].messages\<close> throws when
  the room has been deleted meanwhile; on an inherited property it is undefined.
\<close>

definition upload_history :: "state \<Rightarrow> string \<Rightarrow> error + message list" where
  "upload_history st rid =
     (case rooms st rid of
        None \<Rightarrow> if inherited rid then Inr [] else Inl TypeError
      | Some rm \<Rightarrow> Inr (messages rm))"

text \<open>
  Lines 820 to 929 of the branch that found the room, after the metrics extraction has
  answered. An exception (from the summary, or from line 824 when the room is gone) is
  caught by the handler and answered with status 500.
\<close>

definition upload_room_finish ::
  "state \<Rightarrow> string \<Rightarrow> upfile \<Rightarrow> string option \<Rightarrow> string option \<Rightarrow> string \<Rightarrow> string \<Rightarrow>
     json attempt \<Rightarrow> string \<Rightarrow> state \<times> emit list \<times> (nat \<times> timer) list \<times> http" where
  "upload_room_finish st rid fl uploadedBy uploaderRole content analysisText parsed now =
     (let metrics = extractHealthMetrics parsed in
      case generateDocumentSummary content (originalname fl) analysisText metrics now of
        Inl e \<Rightarrow> (st, [], [], Status 500)
      | Inr summary \<Rightarrow>
          (case rooms st rid of
             None \<Rightarrow>
               if inherited rid
               then (st, [(ToRoom rid, HealthMetricsUpdated metrics)], [], Status 500)
               else (st, [], [], Status 500)
           | Some rm \<Rightarrow>
               (case upload_record
                       (st\<lparr>rooms := (rooms st)(rid \<mapsto> rm\<lparr>healthMetrics := Some metrics\<rparr>)\<rparr>)
                       rid fl uploadedBy uploaderRole content analysisText (Some summary)
                       now of
                  (st', out, timers, reply) \<Rightarrow>
                    (st', (ToRoom rid, HealthMetricsUpdated metrics) # out, timers, reply))))"

text \<open>
  Lines 831 to 929 of the branch that found no room; the room test of line 849 is made
  in the state of this moment.
\<close>

definition upload_noroom_finish ::
  "state \<Rightarrow> string \<Rightarrow> upfile \<Rightarrow> string option \<Rightarrow> string option \<Rightarrow> string \<Rightarrow> string \<Rightarrow>
     json attempt \<Rightarrow> string \<Rightarrow> state \<times> emit list \<times> (nat \<times> timer) list \<times> http" where
  "upload_noroom_finish st rid fl uploadedBy uploaderRole content analysisText parsed now =
     (case generateDocumentSummary content (originalname fl) analysisText
             (extractHealthMetrics parsed) now of
        Inl e \<Rightarrow> (st, [], [], Status 500)
      | Inr summary \<Rightarrow>
          upload_record st rid fl uploadedBy uploaderRole content analysisText (Some summary)
            now)"

text \<open>
  The run of the handler in which nothing else happens during its waits: \<open>content\<close> is
  the extracted text, \<open>analysisText\<close> what \<^verbatim>\<open>performTemporalAnalysis\<close> (or
  \<^verbatim>\<open>analyzeFileWithXAI\<close>) returned, \<open>parsed\<close> the outcome inside
  \<^verbatim>\<open>extractHealthMetrics\<close>.
\<close>

definition upload ::
  "state \<Rightarrow> upfile option \<Rightarrow> string option \<Rightarrow> string option \<Rightarrow> string option \<Rightarrow> string \<Rightarrow>
     string \<Rightarrow> json attempt \<Rightarrow> string \<Rightarrow>
     state \<times> emit list \<times> (nat \<times> timer) list \<times> http" where
  "upload st file roomId uploadedBy uploaderRole content analysisText parsed now =
     (case upload_test st file roomId content of
        Reject \<Rightarrow> (st, [], [], Status 400)
      | NotAnalysed fl rid \<Rightarrow>
          upload_record st rid fl uploadedBy uploaderRole content [] None now
      | WithRoom fl rid \<Rightarrow>
          (case upload_history st rid of
             Inl e \<Rightarrow> (st, [], [], Status 500)
           | Inr history \<Rightarrow>
               upload_room_finish st rid fl uploadedBy uploaderRole content analysisText
                 parsed now)
      | WithoutRoom fl rid \<Rightarrow>
          upload_noroom_finish st rid fl uploadedBy uploaderRole content analysisText
            parsed now)"

subsection \<open>The two delayed callbacks\<close>

text \<open>
  \<^verbatim>\<open>Object.keys(users).find\<close> returns the first matching key in insertion order. A
  callback that finds a connection but no room throws on \<^verbatim>\<open>rooms[roomId].doctor\<close>
  (or on the \<^verbatim>\<open>push\<close>). Both callbacks send with \<^verbatim>\<open>io.to\<close> of the connection id
  they found. In the comparison of the patient callback a nickname given as \<^verbatim>\<open>null\<close>
  is not told apart from a missing one.
\<close>

definition doctorAnalysisTimer ::
  "state \<Rightarrow> string \<Rightarrow> string \<Rightarrow> string \<Rightarrow> error + (state \<times> emit list)" where
  "doctorAnalysisTimer st roomId analysis now =
     (case find (\<lambda>(s, u). u_roomId u = roomId \<and> u_role u = Some ''doctor'') (users st) of
        None \<Rightarrow> Inr (st, [])
      | Some (doctorSocketId, _) \<Rightarrow>
          (case rooms st roomId of
             None \<Rightarrow> Inl TypeError
           | Some rm \<Rightarrow>
               if falsy_str (doctor rm) then Inr (st, [])
               else
                 let doctorAiMessage =
                       aiMessage_of
                         (MICROSCOPE @ '' **Clinical Analysis** (with XAI)'' @
                          [CHR 0x0A, CHR 0x0A] @ analysis)
                         (Some ''doctor'') now
                 in Inr (st\<lparr>rooms := (rooms st)
                              (roomId \<mapsto> rm\<lparr>messages := messages rm @ [doctorAiMessage]\<rparr>)\<rparr>,
                         [(ToRoom doctorSocketId,
                           AiMessage (m_content doctorAiMessage) (Some ''doctor'') True)])))"

definition patientNoticeTimer ::
  "state \<Rightarrow> string \<Rightarrow> string option \<Rightarrow> string \<Rightarrow> string \<Rightarrow> error + (state \<times> emit list)" where
  "patientNoticeTimer st roomId uploadedBy fileName now =
     (case find (\<lambda>(s, u). u_nickname u = uploadedBy \<and> u_roomId u = roomId) (users st) of
        None \<Rightarrow> Inr (st, [])
      | Some (patientSocketId, _) \<Rightarrow>
          (case rooms st roomId of
             None \<Rightarrow> Inl TypeError
           | Some rm \<Rightarrow>
               let patientAiMessage =
                     aiMessage_of
                       (CHECKMARK @ '' I'' @ [CHR 0x27] @ ''ve received '' @ [CHR 0x22] @
                        fileName @ [CHR 0x22] @
                        ''. Your doctor will review it shortly.'')
                       (Some ''patient'') now
               in Inr (st\<lparr>rooms := (rooms st)
                            (roomId \<mapsto> rm\<lparr>messages := messages rm @ [patientAiMessage]\<rparr>)\<rparr>,
                       [(ToRoom patientSocketId,
                         AiMessage (m_content patientAiMessage) (Some ''patient'') True)])))"

definition fire :: "state \<Rightarrow> timer \<Rightarrow> string \<Rightarrow> error + (state \<times> emit list)" where
  "fire st t now =
     (case t of
        DoctorAnalysis roomId analysis \<Rightarrow> doctorAnalysisTimer st roomId analysis now
      | PatientNotice roomId uploadedBy fileName \<Rightarrow>
          patientNoticeTimer st roomId uploadedBy fileName now)"

section \<open>Room lifecycle over HTTP\<close>

text \<open>
  \<open>roomHash\<close> is the random token and \<open>roomId\<close> the string
  \<^verbatim>\<open>`room_${Date.now()}`\<close>, both produced outside the model.
\<close>

definition create_room ::
  "state \<Rightarrow> string option \<Rightarrow> string option \<Rightarrow> string \<Rightarrow> string \<Rightarrow> string \<Rightarrow> state \<times> http" where
  "create_room st doctorEmail' patientEmail' roomHash roomId now =
     (if falsy_str doctorEmail' \<or> falsy_str patientEmail' then (st, Status 400)
      else
        let d = toLowerCase (or_str doctorEmail' []);
            p = toLowerCase (or_str patientEmail' [])
        in (st\<lparr>roomInvitations := (roomInvitations st)
                  (roomHash \<mapsto> \<lparr>inv_roomId = roomId, inv_patientEmail = p,
                                inv_doctorEmail = d, inv_createdAt = now,
                                inv_videoEnabled = False\<rparr>),
                rooms := (rooms st)
                  (roomId \<mapsto> emptyRoom\<lparr>allowedPatientEmail := Some p,
                                         doctorEmail := Some d\<rparr>)\<rparr>,
            Success))"

text \<open>
  \<^verbatim>\<open>roomInvitations[hash]\<close> for an inherited name finds a value without
  \<^verbatim>\<open>doctorEmail\<close> and without \<^verbatim>\<open>roomId\<close>: the ownership test passes exactly when
  the request gives no \<^verbatim>\<open>doctorEmail\<close>, and the room looked up is then the one named
  \<^verbatim>\<open>undefined\<close>; the notice goes to \<^verbatim>\<open>io.to(undefined)\<close>, a room no connection
  is in.
\<close>

definition delete_room :: "state \<Rightarrow> string \<Rightarrow> string option \<Rightarrow> state \<times> emit list \<times> http" where
  "delete_room st hash doctorEmail' =
     (case roomInvitations st hash of
        None \<Rightarrow>
          if \<not> inherited hash then (st, [], Status 404)
          else if doctorEmail' \<noteq> None then (st, [], Status 403)
          else (st\<lparr>rooms := (rooms st)(''undefined'' := None)\<rparr>, [], Success)
      | Some iv \<Rightarrow>
          if map_option toLowerCase doctorEmail' \<noteq> Some (inv_doctorEmail iv)
          then (st, [], Status 403)
          else
            (case rooms st (inv_roomId iv) of
               None \<Rightarrow>
                 (st\<lparr>roomInvitations := (roomInvitations st)(hash := None)\<rparr>, [], Success)
             | Some rm \<Rightarrow>
                 (st\<lparr>rooms := (rooms st)(inv_roomId iv := None),
                     roomInvitations := (roomInvitations st)(hash := None)\<rparr>,
                  [(ToRoom (inv_roomId iv),
                    RoomDeleted ''This consultation room has been deleted by the doctor'')],
                  Success)))"

section \<open>The server as a transition system\<close>

text \<open>
  One constructor per handler or resumed part of a handler, carrying the request and what
  the collaborators answered. \<open>ChatMessageEv\<close> and \<open>Upload\<close> are the runs without
  anything in between; \<open>ChatAiReply\<close>, \<open>UploadRoomFinish\<close> and \<open>UploadNoRoomFinish\<close>
  are the parts after a wait, for the runs with other steps in between. A part that
  throws leaves the state as it was.
\<close>

datatype event =
    JoinRoom sid string "string option" "string option" "string option" "string option"
  | Disconnect sid
  | ChatMessageEv sid string string "string option" string "string attempt"
  | StartVideoCall sid string
  | EndVideoCall sid string
  | JoinVideoCall sid string string
  | LeaveVideoCall sid string string
  | ChatAiReply sid string user string string
  | Upload "upfile option" "string option" "string option" "string option" string string
      "json attempt" string
  | UploadRoomFinish string upfile "string option" "string option" string string
      "json attempt" string
  | UploadNoRoomFinish string upfile "string option" "string option" string string
      "json attempt" string
  | Fire timer string
  | CreateRoom "string option" "string option" string string string
  | DeleteRoom string "string option"

definition step :: "state \<Rightarrow> event \<Rightarrow> state" where
  "step st ev =
     (case ev of
        JoinRoom sock roomId nickname role avatarUrl email \<Rightarrow>
          fst (join_room st sock roomId nickname role avatarUrl email)
      | Disconnect sock \<Rightarrow> fst (disconnect st sock)
      | ChatMessageEv sock roomId message avatarUrl now reply \<Rightarrow>
          (case chat_message st sock roomId message avatarUrl now reply of
             Inl e \<Rightarrow> st
           | Inr (st', out) \<Rightarrow> st')
      | StartVideoCall sock roomId \<Rightarrow> fst (start_video_call st sock roomId)
      | EndVideoCall sock roomId \<Rightarrow> fst (end_video_call st sock roomId)
      | JoinVideoCall sock roomId peerId \<Rightarrow> fst (join_video_call st sock roomId peerId)
      | LeaveVideoCall sock roomId peerId \<Rightarrow> fst (leave_video_call st sock roomId peerId)
      | Upload file roomId uploadedBy uploaderRole content analysisText parsed now \<Rightarrow>
          fst (upload st file roomId uploadedBy uploaderRole content analysisText parsed now)
      | ChatAiReply sock roomId u aiResponse now \<Rightarrow>
          (case chat_ai_reply st sock roomId u aiResponse now of
             Inl e \<Rightarrow> st
           | Inr (st', out) \<Rightarrow> st')
      | UploadRoomFinish rid fl uploadedBy uploaderRole content analysisText parsed now \<Rightarrow>
          fst (upload_room_finish st rid fl uploadedBy uploaderRole content analysisText
                 parsed now)
      | UploadNoRoomFinish rid fl uploadedBy uploaderRole content analysisText parsed now \<Rightarrow>
          fst (upload_noroom_finish st rid fl uploadedBy uploaderRole content analysisText
                 parsed now)
      | Fire t now \<Rightarrow> (case fire st t now of Inl e \<Rightarrow> st | Inr (st', out) \<Rightarrow> st')
      | CreateRoom doctorEmail' patientEmail' roomHash roomId now \<Rightarrow>
          fst (create_room st doctorEmail' patientEmail' roomHash roomId now)
      | DeleteRoom hash doctorEmail' \<Rightarrow> fst (delete_room st hash doctorEmail'))"


text \<open>An uploaded text file, used in the worked runs below.\<close>

definition scan_txt :: upfile where
  "scan_txt = \<lparr>originalname = ''scan.txt'', path = ''uploads/1-scan.txt'',
               filename = ''1-scan.txt'', mimetype = ''text/plain''\<rparr>"

text \<open>
  Every logged message that carries a \<^verbatim>\<open>forRole\<close> tag was written by the assistant.
\<close>

definition tagged_are_assistant :: "state \<Rightarrow> bool" where
  "tagged_are_assistant st =
     (\<forall>r rm m. rooms st r = Some rm \<and> m \<in> set (messages rm) \<and> m_forRole m \<noteq> None \<longrightarrow>
        m_role m = ''AI Assistant'')"

section \<open>Auxiliary facts\<close>

lemmas str_eval = lower_char_def char_of_def bit_0

lemmas run_defs = join_room_def join_room_handler_def inherited_def upload_def upload_test_def upload_history_def upload_room_finish_def upload_noroom_finish_def upload_record_def fire_def patientNoticeTimer_def
  doctorAnalysisTimer_def chat_message_def chat_message_sync_def chat_ai_reply_def disconnect_def
  Let_def init_def emptyRoom_def analyzable_def js_length_def scan_txt_def fileInfo_of_def
  fileMessage_of_def aiMessage_of_def chatMessage_of_def role_of_def or_str_def or_opt_def
  falsy_str_def receives_def generateDocumentSummary_def extractHealthMetrics_def set_defaults_def
  fallbackMetrics_def criticalFindings_throws_def filteredMessages_def isAiCall_def
  getAIResponse_def set_default_def truthy_opt_def defaultDiagnosis_def diagnosis_field_def

lemma map_of_assign_same: "map_of (assign k v kvs) k = Some v"
  by (induction kvs) auto

lemma map_of_delete_key_same: "map_of (delete_key k kvs) k = None"
  by (induction kvs) (auto simp: delete_key_def)

lemma fst_set_assign: "fst ` set (assign k v kvs) = insert k (fst ` set kvs)"
proof (induction kvs)
  case Nil
  show ?case by simp
next
  case (Cons p kvs)
  obtain k' v' where p: "p = (k', v')" by (cases p)
  show ?case
  proof (cases "k' = k")
    case True
    then show ?thesis using p by simp
  next
    case False
    then have "fst ` set (assign k v (p # kvs)) = insert k' (fst ` set (assign k v kvs))"
      using p by simp
    also have "\<dots> = insert k' (insert k (fst ` set kvs))" by (simp only: Cons.IH)
    finally show ?thesis using p by (simp add: insert_commute)
  qed
qed

lemma distinct_assign: "distinct (map fst kvs) \<Longrightarrow> distinct (map fst (assign k v kvs))"
proof (induction kvs)
  case Nil then show ?case by simp
next
  case (Cons p kvs)
  obtain k' v' where p: "p = (k', v')" by (cases p)
  show ?case
  proof (cases "k' = k")
    case True with Cons.prems p show ?thesis by simp
  next
    case False
    have "k' \<notin> fst ` set (assign k v kvs)"
      using Cons.prems p False by (simp add: fst_set_assign)
    with Cons p False show ?thesis by simp
  qed
qed

lemma distinct_delete_key: "distinct (map fst kvs) \<Longrightarrow> distinct (map fst (delete_key k kvs))"
  by (simp add: delete_key_def distinct_map_filter)

text \<open>
  The connection table never holds a key twice: it starts empty, \<^verbatim>\<open>join-room\<close> assigns
  to one key and \<^verbatim>\<open>disconnect\<close> deletes one; no other handler writes to it.
\<close>

lemma users_distinct_join:
  "distinct (map fst (users st)) \<Longrightarrow>
   distinct (map fst (users (fst (join_room st sock roomId nickname role avatarUrl email))))"
  by (simp add: join_room_def join_room_handler_def inherited_def Let_def distinct_assign)

lemma users_distinct_disconnect:
  "distinct (map fst (users st)) \<Longrightarrow> distinct (map fst (users (fst (disconnect st sock))))"
  by (auto simp: disconnect_def Let_def distinct_delete_key split: option.splits)



section \<open>The rate limiter admits exactly the configured number per window\<close>

lemma check_other_source:
  "s \<noteq> src \<Longrightarrow> fst (checkSocketRateLimit M W lims s now) src = lims src"
  by (simp add: checkSocketRateLimit_def split: option.splits)

lemma check_in_window:
  assumes "lims src = Some l" and "now \<le> resetTime l"
  shows "checkSocketRateLimit M W lims src now =
           (if count l \<ge> M then (lims, False)
            else (lims(src \<mapsto> l\<lparr>count := count l + 1\<rparr>), True))"
  using assms by (simp add: checkSocketRateLimit_def)

lemma check_window_closed:
  assumes "window_closed lims src now"
  shows "checkSocketRateLimit M W lims src now =
           (lims(src \<mapsto> \<lparr>count = 1, resetTime = now + W\<rparr>), True)"
  using assms by (auto simp: checkSocketRateLimit_def window_closed_def split: option.splits)

lemma run_in_window:
  assumes "lims src = Some l"
    and "\<forall>t \<in> set (times_of src evs). t \<le> resetTime l"
  shows "answers_for src evs (snd (run_checks M W lims evs)) =
           replicate (min (length (times_of src evs)) (nat (M - count l))) True @
           replicate (length (times_of src evs) - nat (M - count l)) False
         \<and> fst (run_checks M W lims evs) src =
           Some (l\<lparr>count := count l + int (min (length (times_of src evs)) (nat (M - count l)))\<rparr>)"
  using assms
proof (induction evs arbitrary: lims l)
  case Nil
  then show ?case by (simp add: times_of_def)
next
  case (Cons e evs)
  obtain s t where e: "e = (s, t)" by (cases e)
  obtain lims' ok where c: "checkSocketRateLimit M W lims s t = (lims', ok)" by fastforce
  obtain lims'' oks where r: "run_checks M W lims' evs = (lims'', oks)" by fastforce
  show ?case
  proof (cases "s = src")
    case False
    have l': "lims' src = Some l" using check_other_source[of s src M W lims t, OF False] c Cons.prems(1) by simp
    have tm: "times_of src (e # evs) = times_of src evs" using False e by (simp add: times_of_def)
    from Cons.IH[of lims' l, OF l'] Cons.prems(2) tm
    show ?thesis using False e c r by simp
  next
    case True
    have tm: "times_of src (e # evs) = t # times_of src evs" using True e by (simp add: times_of_def)
    then have tle: "t \<le> resetTime l" and rest: "\<forall>t \<in> set (times_of src evs). t \<le> resetTime l"
      using Cons.prems(2) by simp_all
    show ?thesis
    proof (cases "count l \<ge> M")
      case full: True
      then have "lims' = lims" "ok = False"
        using c check_in_window[of lims src l t M W, OF Cons.prems(1) tle] True by simp_all
      with Cons.IH[of lims l, OF Cons.prems(1) rest] full show ?thesis
        using True e c r tm by simp
    next
      case room: False
      let ?l' = "l\<lparr>count := count l + 1\<rparr>"
      have "lims' = lims(src \<mapsto> ?l')" "ok = True"
        using c check_in_window[of lims src l t M W, OF Cons.prems(1) tle] True room by simp_all
      then have l': "lims' src = Some ?l'" by simp
      have rest': "\<forall>t \<in> set (times_of src evs). t \<le> resetTime ?l'" using rest by simp
      have n: "nat (M - count l) = Suc (nat (M - count ?l'))" using room by simp
      from Cons.IH[of lims' ?l', OF l' rest'] show ?thesis
        using True e c r tm \<open>ok = True\<close> n by (simp add: min_def)
    qed
  qed
qed

lemma apiLimiter_is_check:
  "route \<noteq> ''/health'' \<Longrightarrow>
   apiLimiter M W hits route src now = checkSocketRateLimit M W hits src now"
  by (auto simp: apiLimiter_def checkSocketRateLimit_def split: option.splits)

lemma run_requests_is_run_checks:
  "route \<noteq> ''/health'' \<Longrightarrow> run_requests M W hits route evs = run_checks M W hits evs"
proof (induction evs arbitrary: hits)
  case Nil
  show ?case by simp
next
  case (Cons e evs)
  obtain s t where e: "e = (s, t)" by (cases e)
  show ?case using Cons e by (simp add: apiLimiter_is_check split: prod.splits)
qed

lemma health_is_never_limited: "apiLimiter M W hits ''/health'' src now = (hits, True)"
  by (simp add: apiLimiter_def)

text \<open>
  C9. With a limit of at least one, a source whose window is closed at its check \<open>t0\<close>
  opens a window there; of that check and its later checks up to the reset time
  \<open>t0 + W\<close>, interleaved in any way with checks from other sources, the first
  \<open>RATE_LIMIT_MAX\<close> are allowed and every further one is rejected; a check after the
  reset time is allowed again and opens a fresh window with a count of one. This holds of
  \<^verbatim>\<open>checkSocketRateLimit\<close> and, for requests to any route but \<^verbatim>\<open>/health\<close>, of the
  limiter in front of the HTTP routes as the spec describes it.
\<close>

theorem rate_limiter_fixed_window:
  assumes "1 \<le> M"
    and "window_closed lims src t0"
    and "\<forall>t \<in> set (times_of src evs). t \<le> t0 + W"
    and "t0 + W < t'"
    and "route \<noteq> ''/health''"
  shows "answers_for src ((src, t0) # evs) (snd (run_checks M W lims ((src, t0) # evs))) =
           replicate (min (Suc (length (times_of src evs))) (nat M)) True @
           replicate (Suc (length (times_of src evs)) - nat M) False
         \<and> checkSocketRateLimit M W (fst (run_checks M W lims ((src, t0) # evs))) src t' =
           ((fst (run_checks M W lims ((src, t0) # evs)))
              (src \<mapsto> \<lparr>count = 1, resetTime = t' + W\<rparr>), True)
         \<and> answers_for src ((src, t0) # evs)
             (snd (run_requests M W lims route ((src, t0) # evs))) =
           replicate (min (Suc (length (times_of src evs))) (nat M)) True @
           replicate (Suc (length (times_of src evs)) - nat M) False
         \<and> apiLimiter M W (fst (run_requests M W lims route ((src, t0) # evs))) route src t' =
           ((fst (run_requests M W lims route ((src, t0) # evs)))
              (src \<mapsto> \<lparr>count = 1, resetTime = t' + W\<rparr>), True)"
proof -
  let ?l = "\<lparr>count = 1, resetTime = t0 + W\<rparr>"
  let ?lims1 = "lims(src \<mapsto> ?l)"
  have first: "checkSocketRateLimit M W lims src t0 = (?lims1, True)"
    using check_window_closed[of lims src t0 M W, OF assms(2)] .
  have l1: "?lims1 src = Some ?l" by simp
  have w: "\<forall>t \<in> set (times_of src evs). t \<le> resetTime ?l" using assms(3) by simp
  note rw = run_in_window[where lims="?lims1" and src=src and l="?l" and evs=evs and M=M and W=W, OF l1 w]
  obtain lims2 oks where r: "run_checks M W ?lims1 evs = (lims2, oks)" by fastforce
  have M: "nat M = Suc (nat (M - 1))" using assms(1) by simp
  have a: "answers_for src ((src, t0) # evs) (snd (run_checks M W lims ((src, t0) # evs))) =
           replicate (min (Suc (length (times_of src evs))) (nat M)) True @
           replicate (Suc (length (times_of src evs)) - nat M) False"
    using rw first r M by simp
  have f: "fst (run_checks M W lims ((src, t0) # evs)) = lims2" using first r by simp
  have "window_closed lims2 src t'" using rw r assms(4) by (simp add: window_closed_def)
  from check_window_closed[of lims2 src t' M W, OF this] f
  have b: "checkSocketRateLimit M W (fst (run_checks M W lims ((src, t0) # evs))) src t' =
           ((fst (run_checks M W lims ((src, t0) # evs)))
              (src \<mapsto> \<lparr>count = 1, resetTime = t' + W\<rparr>), True)"
    by simp
  note eq = run_requests_is_run_checks[OF assms(5), of M W lims "(src, t0) # evs"]
  show ?thesis
    unfolding eq apiLimiter_is_check[OF assms(5)] using a b by (intro conjI)
qed

text \<open>
  C9, witness: the default configuration (10 checks per 6 hours); eleven checks of one
  source, the last at the very reset time, with a check of another source in between,
  and a twelfth check one millisecond after the reset time.
\<close>

theorem rate_limiter_fixed_window_witness:
  "answers_for ''10.0.0.7''
     ((''10.0.0.7'', 0) #
      [(''10.0.0.7'', 1), (''10.0.0.9'', 2), (''10.0.0.7'', 3), (''10.0.0.7'', 4),
       (''10.0.0.7'', 5), (''10.0.0.7'', 6), (''10.0.0.7'', 7), (''10.0.0.7'', 8),
       (''10.0.0.7'', 9), (''10.0.0.7'', 10), (''10.0.0.7'', 21600000)])
     (snd (run_checks 10 21600000 Map.empty
        ((''10.0.0.7'', 0) #
         [(''10.0.0.7'', 1), (''10.0.0.9'', 2), (''10.0.0.7'', 3), (''10.0.0.7'', 4),
          (''10.0.0.7'', 5), (''10.0.0.7'', 6), (''10.0.0.7'', 7), (''10.0.0.7'', 8),
          (''10.0.0.7'', 9), (''10.0.0.7'', 10), (''10.0.0.7'', 21600000)]))) =
     [True, True, True, True, True, True, True, True, True, True, False]
   \<and> snd (checkSocketRateLimit 10 21600000
        (fst (run_checks 10 21600000 Map.empty
           ((''10.0.0.7'', 0) #
            [(''10.0.0.7'', 1), (''10.0.0.9'', 2), (''10.0.0.7'', 3), (''10.0.0.7'', 4),
             (''10.0.0.7'', 5), (''10.0.0.7'', 6), (''10.0.0.7'', 7), (''10.0.0.7'', 8),
             (''10.0.0.7'', 9), (''10.0.0.7'', 10), (''10.0.0.7'', 21600000)])))
        ''10.0.0.7'' 21600001)
   \<and> answers_for ''10.0.0.7''
     ((''10.0.0.7'', 0) #
      [(''10.0.0.7'', 1), (''10.0.0.9'', 2), (''10.0.0.7'', 3), (''10.0.0.7'', 4),
       (''10.0.0.7'', 5), (''10.0.0.7'', 6), (''10.0.0.7'', 7), (''10.0.0.7'', 8),
       (''10.0.0.7'', 9), (''10.0.0.7'', 10), (''10.0.0.7'', 21600000)])
     (snd (run_requests 10 21600000 Map.empty ''/upload''
        ((''10.0.0.7'', 0) #
         [(''10.0.0.7'', 1), (''10.0.0.9'', 2), (''10.0.0.7'', 3), (''10.0.0.7'', 4),
          (''10.0.0.7'', 5), (''10.0.0.7'', 6), (''10.0.0.7'', 7), (''10.0.0.7'', 8),
          (''10.0.0.7'', 9), (''10.0.0.7'', 10), (''10.0.0.7'', 21600000)]))) =
     [True, True, True, True, True, True, True, True, True, True, False]
   \<and> snd (apiLimiter 10 21600000
        (fst (run_requests 10 21600000 Map.empty ''/upload''
           ((''10.0.0.7'', 0) #
            [(''10.0.0.7'', 1), (''10.0.0.9'', 2), (''10.0.0.7'', 3), (''10.0.0.7'', 4),
             (''10.0.0.7'', 5), (''10.0.0.7'', 6), (''10.0.0.7'', 7), (''10.0.0.7'', 8),
             (''10.0.0.7'', 9), (''10.0.0.7'', 10), (''10.0.0.7'', 21600000)])))
        ''/upload'' ''10.0.0.7'' 21600001)"
proof -
  have h1: "(1::int) \<le> 10" by simp
  have h2: "window_closed Map.empty ''10.0.0.7'' 0" by (simp add: window_closed_def)
  have h3: "\<forall>t \<in> set (times_of ''10.0.0.7''
       [(''10.0.0.7'', 1), (''10.0.0.9'', 2), (''10.0.0.7'', 3), (''10.0.0.7'', 4),
        (''10.0.0.7'', 5), (''10.0.0.7'', 6), (''10.0.0.7'', 7), (''10.0.0.7'', 8),
        (''10.0.0.7'', 9), (''10.0.0.7'', 10), (''10.0.0.7'', 21600000)]). t \<le> 0 + 21600000"
    by (simp add: times_of_def)
  have h4: "(0::int) + 21600000 < 21600001" by simp
  have n: "times_of ''10.0.0.7''
       [(''10.0.0.7'', 1), (''10.0.0.9'', 2), (''10.0.0.7'', 3), (''10.0.0.7'', 4),
        (''10.0.0.7'', 5), (''10.0.0.7'', 6), (''10.0.0.7'', 7), (''10.0.0.7'', 8),
        (''10.0.0.7'', 9), (''10.0.0.7'', 10), (''10.0.0.7'', 21600000)] =
       [1, 3, 4, 5, 6, 7, 8, 9, 10, 21600000]"
    by (simp add: times_of_def)
  have r: "replicate (min (Suc 10) (nat 10)) True @ replicate (Suc 10 - nat 10) False =
       [True, True, True, True, True, True, True, True, True, True, False]"
    by (simp add: numeral_eq_Suc)
  have h5: "''/upload'' \<noteq> ''/health''" by simp
  from rate_limiter_fixed_window [OF h1 h2 h3 h4 h5] show ?thesis
    unfolding n using r by simp
qed

section \<open>Joining a room\<close>

text \<open>
  For a room id that is not an inherited property name (or that names a stored room),
  \<^verbatim>\<open>join-room\<close> never refuses: it binds the connection to exactly the declared values,
  enters the room, creates the room when it is missing, and writes the declared nickname
  and avatar into the patient slot when the role is \<^verbatim>\<open>patient\<close> and into the doctor
  slot otherwise, whatever the slot held. The history sent back is filtered by the
  declared role. The invitation table is neither read nor written, and the declared email
  changes nothing but the stored binding.
\<close>

lemma join_room_admits_declared_identity:
  assumes "rooms st roomId \<noteq> None \<or> \<not> inherited roomId"
  shows "(let rm0 = (case rooms st roomId of None \<Rightarrow> emptyRoom | Some r \<Rightarrow> r);
        rm = (if role = Some ''patient''
              then rm0\<lparr>patient := nickname, patientAvatar := avatarUrl\<rparr>
              else rm0\<lparr>doctor := nickname, doctorAvatar := avatarUrl\<rparr>);
        res = join_room st sock roomId nickname role avatarUrl email
    in map_of (users (fst res)) sock =
         Some \<lparr>u_roomId = roomId, u_nickname = nickname, u_role = role,
               u_avatarUrl = avatarUrl, u_email = email\<rparr>
     \<and> role_of (fst res) sock = role
     \<and> roomId \<in> joined (fst res) sock
     \<and> rooms (fst res) roomId = Some rm
     \<and> hd (snd res) = (ToSocket sock, RoomHistory (filteredMessages rm role) (files rm))
     \<and> last (snd res) =
         (ToRoom roomId,
          UserJoined nickname role (patient rm) (doctor rm) (patientAvatar rm) (doctorAvatar rm))
     \<and> join_room (st\<lparr>roomInvitations := invs\<rparr>) sock roomId nickname role avatarUrl email =
         ((fst res)\<lparr>roomInvitations := invs\<rparr>, snd res)
     \<and> rooms (fst (join_room st sock roomId nickname role avatarUrl email')) =
         rooms (fst res)
     \<and> snd (join_room st sock roomId nickname role avatarUrl email') = snd res)"
  using assms
  by (auto simp: join_room_def join_room_handler_def Let_def role_of_def map_of_assign_same)

text \<open>
  C10. A client sends \<^verbatim>\<open>join-room\<close> with the room id \<^verbatim>\<open>constructor\<close>. The lookup
  \<^verbatim>\<open>rooms[roomId]\<close> finds the property every object inherits, so no room is created;
  the handler binds the connection, then throws on \<^verbatim>\<open>rooms[roomId].messages.filter\<close>
  before it has emitted anything.
\<close>

theorem join_room_throws_on_inherited_name:
  "(case join_room_handler init ''sX'' ''constructor'' (Some ''eve'') (Some ''patient'') None
           (Some ''eve@mail.org'') of
      Inl (e, st') \<Rightarrow>
        e = TypeError \<and> rooms st' ''constructor'' = None
      \<and> map_option u_roomId (map_of (users st') ''sX'') = Some ''constructor''
    | Inr r \<Rightarrow> False)
   \<and> snd (join_room init ''sX'' ''constructor'' (Some ''eve'') (Some ''patient'') None
             (Some ''eve@mail.org'')) = []"
  by (simp add: join_room_def join_room_handler_def inherited_def init_def Let_def)

section \<open>Leaving a room\<close>

text \<open>
  C7, as amended. When a bound connection whose room still exists disconnects, the
  nickname and avatar slot of its declared role (the patient slot for \<^verbatim>\<open>patient\<close>, the
  doctor slot for anything else) is cleared, whichever connection wrote it last; the other
  slot and the rest of the room are unchanged, the binding is removed, and one
  \<^verbatim>\<open>user-left\<close> event with the slots after clearing is broadcast to the room.
\<close>

theorem disconnect_clears_slot_of_role:
  assumes "map_of (users st) sock = Some u" and "rooms st (u_roomId u) = Some rm"
  shows "(case disconnect st sock of
            (st', out) \<Rightarrow>
              (case rooms st' (u_roomId u) of
                 None \<Rightarrow> False
               | Some rm' \<Rightarrow>
                   (if u_role u = Some ''patient''
                    then patient rm' = None \<and> patientAvatar rm' = None
                       \<and> doctor rm' = doctor rm \<and> doctorAvatar rm' = doctorAvatar rm
                    else doctor rm' = None \<and> doctorAvatar rm' = None
                       \<and> patient rm' = patient rm \<and> patientAvatar rm' = patientAvatar rm)
                 \<and> messages rm' = messages rm \<and> files rm' = files rm
                 \<and> healthMetrics rm' = healthMetrics rm
                 \<and> videoCallActive rm' = videoCallActive rm
                 \<and> videoParticipants rm' = videoParticipants rm
                 \<and> out = [(ToRoom (u_roomId u),
                            UserLeft (u_nickname u) (u_role u) (patient rm') (doctor rm'))])
              \<and> map_of (users st') sock = None
              \<and> joined st' sock = {})"
  using assms by (simp add: disconnect_def Let_def map_of_delete_key_same)

text \<open>C7, witness: a patient joins and leaves.\<close>

theorem disconnect_clears_slot_of_role_witness:
  "(let st1 = fst (join_room init ''sA'' ''room1'' (Some ''Pat'') (Some ''patient'') None None)
    in map_option patient (rooms st1 ''room1'') = Some (Some ''Pat'')
     \<and> map_option patient (rooms (fst (disconnect st1 ''sA'')) ''room1'') = Some None
     \<and> snd (disconnect st1 ''sA'') =
         [(ToRoom ''room1'', UserLeft (Some ''Pat'') (Some ''patient'') None None)])"
proof -
  let ?st1 = "fst (join_room init ''sA'' ''room1'' (Some ''Pat'') (Some ''patient'') None None)"
  let ?u = "\<lparr>u_roomId = ''room1'', u_nickname = Some ''Pat'', u_role = Some ''patient'',
             u_avatarUrl = None, u_email = None\<rparr>"
  let ?rm = "emptyRoom\<lparr>patient := Some ''Pat'', patientAvatar := None\<rparr>"
  have h1: "map_of (users ?st1) ''sA'' = Some ?u"
    by (simp add: join_room_def join_room_handler_def inherited_def Let_def init_def)
  have h2: "rooms ?st1 (u_roomId ?u) = Some ?rm"
    by (simp add: join_room_def join_room_handler_def inherited_def Let_def init_def)
  from disconnect_clears_slot_of_role [OF h1 h2] h2 show ?thesis
    by (auto simp: Let_def emptyRoom_def split: prod.splits option.splits)
qed

text \<open>
  C7, counterexample to the claim as stated: two doctor connections join, the second one
  owns the slot, the first one disconnects, and the slot is cleared although its owner is
  still connected.
\<close>

theorem disconnect_clears_slot_owned_by_another:
  "(let st1 = fst (join_room init ''sA'' ''room1'' (Some ''Dr A'') (Some ''doctor'') None None);
        st2 = fst (join_room st1 ''sB'' ''room1'' (Some ''Dr B'') (Some ''doctor'') None None);
        st3 = fst (disconnect st2 ''sA'')
    in map_option doctor (rooms st2 ''room1'') = Some (Some ''Dr B'')
     \<and> map_option u_nickname (map_of (users st3) ''sB'') = Some (Some ''Dr B'')
     \<and> map_option doctor (rooms st3 ''room1'') = Some None)"
  by (simp add: join_room_def join_room_handler_def inherited_def disconnect_def Let_def init_def emptyRoom_def delete_key_def)

section \<open>Starting and ending a video call\<close>



section \<open>Routing of chat messages\<close>



text \<open>
  The test for the assistant follows JavaScript on the capital I with a dot: the message
  \<^verbatim>\<open>@a\<close> followed by U+0130 calls the assistant.
\<close>

lemma isAiCall_dotted_capital_I: "isAiCall [CHR ''@'', CHR ''a'', CHR 0xC4, CHR 0xB0]"
  by (simp add: isAiCall_def str_eval)



text \<open>
  The room named by a connection's id is open to others: a client that sends
  \<^verbatim>\<open>join-room\<close> with the patient's connection id as room id receives the patient's
  \<^verbatim>\<open>@ai\<close> message.
\<close>

lemma room_named_by_connection_id_is_open:
  "(let st2 = foldl step init
                [JoinRoom ''sP'' ''room1'' (Some ''pat'') (Some ''patient'') None None,
                 JoinRoom ''sX'' ''sP'' (Some ''eve'') (Some ''patient'') None None]
    in case chat_message_sync st2 ''sP'' ''room1'' ''@ai is my result bad?'' None ''t1'' of
         Inl e \<Rightarrow> False
       | Inr (st3, out, waiting) \<Rightarrow>
           map fst out = [ToRoom ''sP''] \<and> receives st3 ''sX'' (ToRoom ''sP''))"
  by (simp add: step_def run_defs str_eval)


section \<open>The delayed clinical analysis message\<close>





section \<open>The health metrics snapshot\<close>








section \<open>Role isolation on the remaining paths\<close>

text \<open>
  The tag invariant holds initially and is kept by every step, so it holds in every state
  the server can reach.
\<close>

lemma tagged_init: "tagged_are_assistant init"
  by (simp add: tagged_are_assistant_def init_def)

lemma tagged_step:
  assumes "tagged_are_assistant st"
  shows "tagged_are_assistant (step st ev)"
proof (cases ev)
  case (JoinRoom sock roomId nickname role avatarUrl email)
  with assms show ?thesis
    by (auto simp: tagged_are_assistant_def step_def join_room_def join_room_handler_def inherited_def Let_def emptyRoom_def
        split: option.splits if_splits)
next
  case (Disconnect sock)
  with assms show ?thesis
    by (auto simp: tagged_are_assistant_def step_def disconnect_def Let_def
        split: option.splits if_splits)
next
  case (ChatMessageEv sock roomId message avatarUrl now reply)
  with assms show ?thesis
    by (auto simp: tagged_are_assistant_def step_def chat_message_def chat_message_sync_def chat_ai_reply_def Let_def
        chatMessage_of_def aiMessage_of_def split: option.splits if_splits)
next
  case (StartVideoCall sock roomId)
  with assms show ?thesis
    by (auto simp: tagged_are_assistant_def step_def start_video_call_def
        split: option.splits if_splits)
next
  case (EndVideoCall sock roomId)
  with assms show ?thesis
    by (auto simp: tagged_are_assistant_def step_def end_video_call_def
        split: option.splits if_splits)
next
  case (JoinVideoCall sock roomId peerId)
  with assms show ?thesis
    by (auto simp: tagged_are_assistant_def step_def join_video_call_def Let_def
        split: option.splits if_splits)
next
  case (LeaveVideoCall sock roomId peerId)
  with assms show ?thesis
    by (auto simp: tagged_are_assistant_def step_def leave_video_call_def
        split: option.splits if_splits)
next
  case (Upload upl roomId uploadedBy uploaderRole content analysisText parsed now)
  with assms show ?thesis
    by (auto simp: tagged_are_assistant_def step_def upload_def upload_test_def upload_history_def upload_room_finish_def upload_noroom_finish_def upload_record_def Let_def
        fileMessage_of_def split: option.splits if_splits sum.splits prod.splits)
next
  case (ChatAiReply sock roomId u aiResponse now)
  with assms show ?thesis
    by (auto simp: tagged_are_assistant_def step_def chat_ai_reply_def aiMessage_of_def
        split: option.splits if_splits)
next
  case (UploadRoomFinish rid fl uploadedBy uploaderRole content analysisText parsed now)
  with assms show ?thesis
    by (auto simp: tagged_are_assistant_def step_def upload_room_finish_def upload_record_def
        Let_def fileMessage_of_def split: option.splits if_splits sum.splits prod.splits)
next
  case (UploadNoRoomFinish rid fl uploadedBy uploaderRole content analysisText parsed now)
  with assms show ?thesis
    by (auto simp: tagged_are_assistant_def step_def upload_noroom_finish_def
        upload_record_def Let_def fileMessage_of_def
        split: option.splits if_splits sum.splits prod.splits)
next
  case (Fire t now)
  with assms show ?thesis
    by (cases t)
       (auto simp: tagged_are_assistant_def step_def fire_def doctorAnalysisTimer_def
          patientNoticeTimer_def Let_def aiMessage_of_def
          split: option.splits if_splits prod.splits)
next
  case (CreateRoom doctorEmail' patientEmail' roomHash roomId now)
  with assms show ?thesis
    by (auto simp: tagged_are_assistant_def step_def create_room_def Let_def emptyRoom_def
        split: option.splits if_splits)
next
  case (DeleteRoom hash doctorEmail')
  with assms show ?thesis
    by (auto simp: tagged_are_assistant_def step_def delete_room_def
        split: option.splits if_splits)
qed

lemma tagged_reachable: "tagged_are_assistant (foldl step init evs)"
proof (induction evs rule: rev_induct)
  case Nil show ?case by (simp add: tagged_init)
next
  case (snoc ev evs) then show ?case by (simp add: tagged_step)
qed

text \<open>
  Hence a message replayed on join that carries a non-empty tag carries the joiner's
  declared role.
\<close>

lemma history_holds_no_foreign_tag:
  assumes "tagged_are_assistant st" and "rooms st r = Some rm"
    and "m \<in> set (filteredMessages rm role)" and "\<not> falsy_str (m_forRole m)"
  shows "m_forRole m = role"
  using assms
  by (auto simp: tagged_are_assistant_def filteredMessages_def falsy_str_def split: if_splits)

text \<open>
  The history sent on join holds no assistant message tagged for a role other than the
  joiner's declared role.
\<close>

lemma history_replay_respects_forRole:
  "filter (\<lambda>m. m_role m = ''AI Assistant'' \<and> \<not> falsy_str (m_forRole m) \<and> m_forRole m \<noteq> role)
     (filteredMessages rm role) = []"
  by (auto simp: filteredMessages_def filter_empty_conv)

text \<open>
  The assistant's reply to an \<^verbatim>\<open>@ai\<close> message is logged with the requester's declared
  role as \<^verbatim>\<open>forRole\<close> and emitted to the room named by the requester's connection id.
\<close>

lemma ai_reply_private_to_requester:
  assumes "map_of (users st) sock = Some u" and "rooms st roomId = Some rm"
    and "isAiCall message"
  shows "(case chat_message st sock roomId message avatarUrl now reply of
            Inl e \<Rightarrow> False
          | Inr (st', out) \<Rightarrow>
              out ! 1 = (ToRoom sock, AiMessage (getAIResponse st' roomId reply) (u_role u) True)
            \<and> role_of st' sock = u_role u
            \<and> map_option (\<lambda>rm'. last (messages rm')) (rooms st' roomId) =
                Some (aiMessage_of (getAIResponse st' roomId reply) (u_role u) now))"
  using assms by (simp add: chat_message_def chat_message_sync_def chat_ai_reply_def Let_def role_of_def getAIResponse_def)

section \<open>Further facts about the pipeline\<close>

text \<open>
  \<^verbatim>\<open>detectEmergency\<close>, when it is called with a failing classifier: a message with a
  keyword costs one call and is reported as an emergency of level HIGH; a message without
  one costs no call and is not an emergency.
\<close>

lemma detectEmergency_fail_safe:
  "detectEmergency message Threw =
     (if hasEmergencyKeyword message
      then (\<lparr>isEmergency = True, level = Some (JStr ''HIGH''),
              reasoning = Some (JStr ''Keyword detected''), urgentAdvice = None\<rparr>, 1)
      else (\<lparr>isEmergency = False, level = None, reasoning = None, urgentAdvice = None\<rparr>, 0))"
  by (simp add: detectEmergency_def)

text \<open>
  An upload whose extracted content has at most 20 code units is recorded with an empty
  analysis and no summary, and leaves the health metrics alone.
\<close>

lemma short_upload_recorded_without_analysis:
  assumes "rooms st roomId = Some rm" and "roomId \<noteq> []" and "js_length content \<le> 20"
  shows "(case upload st (Some fl) (Some roomId) uploadedBy uploaderRole content analysisText
                 parsed now of
            (st1, out, timers, reply) \<Rightarrow>
              map_option files (rooms st1 roomId) =
                Some (files rm @ [fileInfo_of fl uploadedBy content [] None now])
            \<and> map_option healthMetrics (rooms st1 roomId) = Some (healthMetrics rm)
            \<and> reply = SuccessFile (fileInfo_of fl uploadedBy content [] None now))"
  using assms
  by (auto simp: upload_def upload_test_def upload_history_def upload_room_finish_def upload_noroom_finish_def upload_record_def Let_def analyzable_def js_length_def split: prod.splits)

text \<open>
  An upload that found no room at its test, while a patient joins (and so creates the
  room) before its file is recorded: the file is stored and the health metrics stay
  empty.
\<close>

lemma room_created_during_upload:
  "(let st1 = fst (join_room init ''sP'' ''room1'' (Some ''pat'') (Some ''patient'') None None)
    in upload_test init (Some scan_txt) (Some ''room1'') ''Hemoglobin 7.1 g/dL (low)'' =
         WithoutRoom scan_txt ''room1''
     \<and> (case upload_noroom_finish st1 ''room1'' scan_txt (Some ''pat'') (Some ''patient'')
               ''Hemoglobin 7.1 g/dL (low)'' ''severe anemia'' Threw ''t1'' of
          (st2, out, timers, reply) \<Rightarrow>
            map_option (\<lambda>rm. map f_analysis (files rm)) (rooms st2 ''room1'') =
              Some [''severe anemia'']
          \<and> map_option healthMetrics (rooms st2 ''room1'') = Some None))"
  by (simp add: run_defs)

section \<open>Runs in which the server departs from its own comments\<close>

text \<open>
  C1. A doctor and a patient who share the nickname \<^verbatim>\<open>alex\<close> are in one room, the
  doctor having joined first. The patient uploads a file. The callback that the source
  comments as \<^verbatim>\<open>Send only to patient\<close> looks the recipient up by nickname and room,
  finds the doctor's connection first, and emits the message tagged
  \<^verbatim>\<open>forRole = patient\<close> to it.
\<close>

theorem patient_notice_reaches_doctor_connection:
  "(let st1 = fst (join_room init ''sD'' ''room1'' (Some ''alex'') (Some ''doctor'') None
                     (Some ''alex@clinic.org''));
        st2 = fst (join_room st1 ''sP'' ''room1'' (Some ''alex'') (Some ''patient'') None
                     (Some ''alex@mail.org''))
    in case upload st2 (Some scan_txt) (Some ''room1'') (Some ''alex'') (Some ''patient'')
              ''short note'' [] Threw ''t1'' of
         (st3, out, timers, reply) \<Rightarrow>
           timers = [(500, PatientNotice ''room1'' (Some ''alex'') ''scan.txt'')]
         \<and> (case fire st3 (PatientNotice ''room1'' (Some ''alex'') ''scan.txt'') ''t2'' of
               Inl e \<Rightarrow> False
             | Inr (st4, out4) \<Rightarrow>
                 map fst out4 = [ToRoom ''sD'']
               \<and> receives st4 ''sD'' (ToRoom ''sD'')
               \<and> (case snd (hd out4) of AiMessage text forRole private \<Rightarrow> forRole = Some ''patient''
                     | _ \<Rightarrow> False)
               \<and> role_of st4 ''sD'' = Some ''doctor''
               \<and> role_of st4 ''sP'' = Some ''patient''
               \<and> map_option (\<lambda>rm. m_forRole (last (messages rm))) (rooms st4 ''room1'') =
                   Some (Some ''patient'')))"
  by (simp add: join_room_def join_room_handler_def inherited_def upload_def upload_test_def upload_history_def upload_room_finish_def upload_noroom_finish_def upload_record_def fire_def patientNoticeTimer_def
      Let_def init_def emptyRoom_def analyzable_def js_length_def scan_txt_def fileInfo_of_def
      fileMessage_of_def aiMessage_of_def role_of_def or_str_def receives_def)

text \<open>
  C3. A patient alone in a room uploads a report. The \<^verbatim>\<open>chat-message\<close> and the
  \<^verbatim>\<open>files-updated\<close> events broadcast to the room both carry the full analysis text,
  and the patient's connection receives what is sent to the room.
\<close>

theorem upload_broadcasts_analysis_text_to_patient:
  "(let st1 = fst (join_room init ''sP'' ''room1'' (Some ''pat'') (Some ''patient'') None None)
    in case upload st1 (Some scan_txt) (Some ''room1'') (Some ''pat'') (Some ''patient'')
              ''Hemoglobin 7.1 g/dL (low)'' ''CRITICAL FINDINGS: severe anemia'' Threw ''t1'' of
         (st2, out, timers, reply) \<Rightarrow>
           role_of st2 ''sP'' = Some ''patient''
         \<and> map fst out = [ToRoom ''room1'', ToRoom ''room1'', ToRoom ''room1'']
         \<and> receives st2 ''sP'' (ToRoom ''room1'')
         \<and> (case snd (out ! 1) of
               ChatMessage m \<Rightarrow>
                 map_option fd_analysis (m_fileData m) = Some ''CRITICAL FINDINGS: severe anemia''
             | _ \<Rightarrow> False)
         \<and> (case snd (out ! 2) of
               FilesUpdated fs \<Rightarrow> map f_analysis fs = [''CRITICAL FINDINGS: severe anemia'']
             | _ \<Rightarrow> False))"
  by (simp add: join_room_def join_room_handler_def inherited_def upload_def upload_test_def upload_history_def upload_room_finish_def upload_noroom_finish_def upload_record_def
      Let_def init_def emptyRoom_def analyzable_def js_length_def scan_txt_def fileInfo_of_def
      fileMessage_of_def role_of_def or_str_def receives_def generateDocumentSummary_def
      extractHealthMetrics_def set_defaults_def fallbackMetrics_def criticalFindings_throws_def)

text \<open>
  C6. The message ``chest pain, can't breathe'' matches the keyword list, and
  \<^verbatim>\<open>detectEmergency\<close> would report an emergency of level HIGH for it even when the
  classifier fails; but the chat handler does not call it: whatever the model would
  answer, the handler's only effect besides the log entry is the plain broadcast.
\<close>

theorem chat_handler_never_runs_emergency_detection:
  "(let st1 = fst (join_room init ''sP'' ''room1'' (Some ''pat'') (Some ''patient'') None None);
        msg = ''chest pain, can'' @ [CHR 0x27] @ ''t breathe''
    in hasEmergencyKeyword msg
     \<and> fst (detectEmergency msg Threw) =
         \<lparr>isEmergency = True, level = Some (JStr ''HIGH''),
          reasoning = Some (JStr ''Keyword detected''), urgentAdvice = None\<rparr>
     \<and> (case chat_message st1 ''sP'' ''room1'' msg None ''t1'' reply of
          Inl e \<Rightarrow> False
        | Inr (st2, out) \<Rightarrow>
            out = [(ToRoom ''room1'',
                    ChatMessage \<lparr>m_role = ''Patient'', m_nickname = Some ''pat'', m_content = msg,
                                 m_timestamp = ''t1'', m_avatarUrl = None, m_fileData = None,
                                 m_isFile = False, m_forRole = None, m_isPrivate = False\<rparr>)]))"
  by (simp add: join_room_def join_room_handler_def inherited_def chat_message_def chat_message_sync_def chat_ai_reply_def chatMessage_of_def isAiCall_def
      hasEmergencyKeyword_def EMERGENCY_KEYWORDS_def detectEmergency_def
      Let_def init_def emptyRoom_def or_opt_def falsy_str_def str_eval)

end
